theory Spec2Isabelle
  imports Main
begin

section \<open>JavaScript values as the form scripts see them\<close>

text \<open>
  String literals of the scripts are given as the bytes of the (UTF-8) source files. The
  functions below only ever inspect ASCII characters, which are one unit in UTF-8 and in
  UTF-16 alike, and no byte of a multi-byte UTF-8 sequence is ASCII.
\<close>

datatype js_error = TypeError

text \<open>
  The result of \<^verbatim>\<open>JSON.parse\<close>. The number type is a parameter: the scripts apply
  only ToBoolean and ToString to a number, and both are passed to the functions that need
  them (\<open>nb\<close> and \<open>ns\<close>). An object keeps its members in source order; on a duplicate
  key the last member wins.
\<close>

datatype 'n json =
    JNull
  | JBool bool
  | JNum 'n
  | JStr string
  | JArr "'n json list"
  | JObj "(string \<times> 'n json) list"

definition own_prop :: "(string \<times> 'n json) list \<Rightarrow> string \<Rightarrow> 'n json option" where
  "own_prop kvs k = map_of (rev kvs) k"

text \<open>ToBoolean.\<close>

fun to_boolean :: "('n \<Rightarrow> bool) \<Rightarrow> 'n json \<Rightarrow> bool" where
  "to_boolean nb JNull = False"
| "to_boolean nb (JBool b) = b"
| "to_boolean nb (JNum n) = nb n"
| "to_boolean nb (JStr s) = (s \<noteq> [])"
| "to_boolean nb (JArr xs) = True"
| "to_boolean nb (JObj kvs) = True"

text \<open>
  ToString, and \<^verbatim>\<open>Array.prototype.join\<close>. An object made by \<^verbatim>\<open>JSON.parse\<close> prints as
  \<^verbatim>\<open>[object Object]\<close> unless it has a member named \<^verbatim>\<open>toString\<close>: that member is
  not callable, \<^verbatim>\<open>valueOf\<close> (own or inherited) yields no primitive, and the conversion
  throws a TypeError. In a join, null prints as the empty string.
\<close>

fun to_string :: "('n \<Rightarrow> string) \<Rightarrow> 'n json \<Rightarrow> js_error + string"
  and join :: "('n \<Rightarrow> string) \<Rightarrow> string \<Rightarrow> 'n json list \<Rightarrow> js_error + string" where
  "to_string ns JNull = Inr ''null''"
| "to_string ns (JBool b) = Inr (if b then ''true'' else ''false'')"
| "to_string ns (JNum n) = Inr (ns n)"
| "to_string ns (JStr s) = Inr s"
| "to_string ns (JArr xs) = join ns '','' xs"
| "to_string ns (JObj kvs) =
     (case own_prop kvs ''toString'' of
        None \<Rightarrow> Inr ''[object Object]''
      | Some f \<Rightarrow> Inl TypeError)"
| "join ns sep [] = Inr []"
| "join ns sep (x # xs) =
     (case (if x = JNull then Inr [] else to_string ns x) of
        Inl e \<Rightarrow> Inl e
      | Inr s \<Rightarrow>
          (if xs = [] then Inr s
           else (case join ns sep xs of
                   Inl e \<Rightarrow> Inl e
                 | Inr t \<Rightarrow> Inr (s @ sep @ t))))"

text \<open>
  Reading the member \<open>k\<close> of a parsed value that is not null, for the names the
  scripts read (\<^verbatim>\<open>page_name\<close>, \<^verbatim>\<open>tasks\<close>, \<^verbatim>\<open>has_token\<close>, \<^verbatim>\<open>message\<close> and so
  on): none of them is a property of a boolean, a number, a string or an array, so the
  read gives undefined (\<open>None\<close>) there. On null the read throws; \<open>member\<close> is used
  directly only where the script has tested the value for truthiness before.
\<close>

fun member :: "'n json \<Rightarrow> string \<Rightarrow> 'n json option" where
  "member (JObj kvs) k = own_prop kvs k"
| "member v k = None"

definition get_member :: "'n json \<Rightarrow> string \<Rightarrow> js_error + 'n json option" where
  "get_member v k = (if v = JNull then Inl TypeError else Inr (member v k))"

text \<open>ToBoolean of a value that may be undefined.\<close>

definition tb :: "('n \<Rightarrow> bool) \<Rightarrow> 'n json option \<Rightarrow> bool" where
  "tb nb v = (case v of None \<Rightarrow> False | Some w \<Rightarrow> to_boolean nb w)"

text \<open>\<^verbatim>\<open>v || ''\<close> for a member that may be undefined.\<close>

definition or_empty :: "('n \<Rightarrow> bool) \<Rightarrow> 'n json option \<Rightarrow> 'n json" where
  "or_empty nb v =
     (case v of
        None \<Rightarrow> JStr []
      | Some w \<Rightarrow> if to_boolean nb w then w else JStr [])"

section \<open>Meta Lead Account List: the accounts table\<close>

text \<open>\<^verbatim>\<open>s.replace(/c/g, rep)\<close> for a one-character pattern.\<close>

definition replace_all :: "char \<Rightarrow> string \<Rightarrow> string \<Rightarrow> string" where
  "replace_all c rep s = concat (map (\<lambda>x. if x = c then rep else [x]) s)"

definition escape_html :: "string \<Rightarrow> string" where
  \<open>escape_html str =
     replace_all (CHR 0x27) ''&#39;''
       (replace_all (CHR ''"'') ''&quot;''
         (replace_all (CHR ''>'') ''&gt;''
           (replace_all (CHR ''<'') ''&lt;''
             (replace_all (CHR ''&'') ''&amp;'' str))))\<close>

text \<open>
  \<^verbatim>\<open>String(r.k || '')\<close>, the conversion \<open>escape_html\<close> applies to its argument, and
  \<^verbatim>\<open>escape_html(r.k || '')\<close>.
\<close>

definition cell_value ::
  "('n \<Rightarrow> bool) \<Rightarrow> ('n \<Rightarrow> string) \<Rightarrow> 'n json \<Rightarrow> string \<Rightarrow> js_error + string" where
  "cell_value nb ns r k =
     (case get_member r k of
        Inl e \<Rightarrow> Inl e
      | Inr v \<Rightarrow> to_string ns (or_empty nb v))"

definition text_cell ::
  "('n \<Rightarrow> bool) \<Rightarrow> ('n \<Rightarrow> string) \<Rightarrow> 'n json \<Rightarrow> string \<Rightarrow> js_error + string" where
  "text_cell nb ns r k =
     (case cell_value nb ns r k of
        Inl e \<Rightarrow> Inl e
      | Inr s \<Rightarrow> Inr (escape_html s))"

text \<open>
  \<^verbatim>\<open>Array.isArray(r.tasks) ? r.tasks.join(', ') : (r.tasks || '')\<close>, converted to a
  string by the template literal.
\<close>

definition tasks_cell ::
  "('n \<Rightarrow> bool) \<Rightarrow> ('n \<Rightarrow> string) \<Rightarrow> 'n json \<Rightarrow> js_error + string" where
  "tasks_cell nb ns r =
     (case get_member r ''tasks'' of
        Inl e \<Rightarrow> Inl e
      | Inr (Some (JArr ts)) \<Rightarrow> join ns '', '' ts
      | Inr v \<Rightarrow> to_string ns (or_empty nb v))"

definition nl :: string where
  "nl = [CHR 0x0A]"

definition row_html :: "string list \<Rightarrow> string" where
  "row_html cells =
     nl @ ''        <tr>'' @
     concat (map (\<lambda>c. nl @ ''            <td>'' @ c @ ''</td>'') cells) @
     nl @ ''        </tr>'' @ nl @ ''    ''"

text \<open>
  The arrow function of \<^verbatim>\<open>rows.map\<close>: the six substitutions are evaluated left to
  right, and the first one that throws ends the call.
\<close>

fun cells_of :: "(js_error + string) list \<Rightarrow> js_error + string list" where
  "cells_of [] = Inr []"
| "cells_of (c # cs) =
     (case c of
        Inl e \<Rightarrow> Inl e
      | Inr s \<Rightarrow> (case cells_of cs of Inl e \<Rightarrow> Inl e | Inr ss \<Rightarrow> Inr (s # ss)))"

definition row_cells ::
  "('n \<Rightarrow> bool) \<Rightarrow> ('n \<Rightarrow> string) \<Rightarrow> 'n json \<Rightarrow> (js_error + string) list" where
  "row_cells nb ns r =
     [text_cell nb ns r ''page_name'',
      text_cell nb ns r ''category'',
      text_cell nb ns r ''business_name'',
      text_cell nb ns r ''city'',
      text_cell nb ns r ''country'',
      tasks_cell nb ns r]"

definition render_row ::
  "('n \<Rightarrow> bool) \<Rightarrow> ('n \<Rightarrow> string) \<Rightarrow> 'n json \<Rightarrow> js_error + string" where
  "render_row nb ns r =
     (case cells_of (row_cells nb ns r) of
        Inl e \<Rightarrow> Inl e
      | Inr cs \<Rightarrow> Inr (row_html cs))"

fun render_rows ::
  "('n \<Rightarrow> bool) \<Rightarrow> ('n \<Rightarrow> string) \<Rightarrow> 'n json list \<Rightarrow> js_error + string list" where
  "render_rows nb ns [] = Inr []"
| "render_rows nb ns (r # rs) =
     (case render_row nb ns r of
        Inl e \<Rightarrow> Inl e
      | Inr h \<Rightarrow>
          (case render_rows nb ns rs of Inl e \<Rightarrow> Inl e | Inr hs \<Rightarrow> Inr (h # hs)))"

definition header :: "string list" where
  "header = [''Page Name'', ''Category'', ''Business'', ''City'', ''Country'', ''Tasks'']"

definition thead :: string where
  "thead = ''<thead><tr>'' @ concat (map (\<lambda>h. ''<th>'' @ h @ ''</th>'') header) @ ''</tr></thead>''"

definition invalid_html :: string where
  \<open>invalid_html = ''<div class="text-muted">Invalid accounts JSON</div>''\<close>

definition empty_html :: string where
  \<open>empty_html =
     ''<div class="text-muted">Hen'' @ [CHR 0xC3, CHR 0xBC] @
     ''z hesap yok. Sync Accounts ile getiriniz.</div>''\<close>

definition table_html :: "string list \<Rightarrow> string" where
  \<open>table_html trs =
     ''<div class="table-responsive"><table class="table table-bordered" style="margin-top:8px;">'' @
     thead @ ''<tbody>'' @ concat trs @ ''</tbody>'' @ ''</table></div>''\<close>

text \<open>
  \<^verbatim>\<open>!rows.length\<close> on a parsed value: an array or a string has its length, an object
  has a length only as a member of that name, a boolean or a number has none, and the
  read throws on null.
\<close>

fun has_length :: "('n \<Rightarrow> bool) \<Rightarrow> 'n json \<Rightarrow> js_error + bool" where
  "has_length nb JNull = Inl TypeError"
| "has_length nb (JArr xs) = Inr (xs \<noteq> [])"
| "has_length nb (JStr s) = Inr (s \<noteq> [])"
| "has_length nb (JObj kvs) = Inr (tb nb (own_prop kvs ''length''))"
| "has_length nb v = Inr False"

record account_list_doc =
  accounts_json :: "string option"

text \<open>
  \<open>render_accounts_table\<close> returns the markup it assigns to \<^verbatim>\<open>container.innerHTML\<close>,
  or the error it throws (the container is then left as it was: the assignment is the
  last statement of every path). \<open>parse\<close> is \<^verbatim>\<open>JSON.parse\<close>, \<open>None\<close> when it throws.
  Only an array has a callable \<^verbatim>\<open>map\<close>.
\<close>

definition raw_json :: "account_list_doc \<Rightarrow> string" where
  "raw_json doc =
     (case accounts_json doc of
        None \<Rightarrow> ''[]''
      | Some s \<Rightarrow> if s = [] then ''[]'' else s)"

definition render_accounts_table ::
  "(string \<Rightarrow> 'n json option) \<Rightarrow> ('n \<Rightarrow> bool) \<Rightarrow> ('n \<Rightarrow> string) \<Rightarrow>
     account_list_doc \<Rightarrow> js_error + string" where
  "render_accounts_table parse nb ns doc =
     (case parse (raw_json doc) of
        None \<Rightarrow> Inr invalid_html
      | Some rows \<Rightarrow>
          (case has_length nb rows of
             Inl e \<Rightarrow> Inl e
           | Inr False \<Rightarrow> Inr empty_html
           | Inr True \<Rightarrow>
               (case rows of
                  JArr rs \<Rightarrow>
                    (case render_rows nb ns rs of
                       Inl e \<Rightarrow> Inl e
                     | Inr trs \<Rightarrow> Inr (table_html trs))
                | _ \<Rightarrow> Inl TypeError)))"

section \<open>Facebook Lead Ads Settings: the form script\<close>

text \<open>
  The fields of \<^verbatim>\<open>frm.doc\<close> the script reads or writes. A text field is \<open>None\<close> when
  it is null or undefined; \<open>enabled\<close> is a check box.
\<close>

record settings_doc =
  enabled :: bool
  app_id :: "string option"
  access_token :: "string option"
  token_expiry :: "string option"
  authorization_url :: "string option"
  access_token_url :: "string option"
  webhook_callback_url :: "string option"
  webhook_verify_token :: "string option"

definition truthy :: "string option \<Rightarrow> bool" where
  "truthy v = (case v of None \<Rightarrow> False | Some s \<Rightarrow> s \<noteq> [])"

text \<open>
  Texts shown to the operator. \<open>Tr fmt args\<close> is \<^verbatim>\<open>__(fmt, args)\<close>, the translation
  of \<open>fmt\<close> with its arguments filled in; \<open>Emb v\<close> is a value concatenated into a text
  with \<^verbatim>\<open>+\<close>. A computed number is \<open>None\<close> when it is NaN; a value read from a
  server response is \<open>None\<close> when it is undefined.
\<close>

datatype 'n arg = Num "int option" | Val "'n json option" | Str string | Rejection

datatype 'n piece = Lit string | Tr string "'n arg list" | Emb "'n json option"

type_synonym 'n message = "'n piece list"

text \<open>The functions a custom button runs when it is clicked.\<close>

datatype handler =
    AuthorizeFacebook
  | CheckTokenStatus
  | TestCallbackUrl
  | RefreshToken
  | CopyCallbackUrl
  | CopyVerifyToken
  | RegenerateVerifyToken

text \<open>
  What a handler does to the world outside \<^verbatim>\<open>frm.doc\<close>, in the order it does it.
  \<open>Call m\<close> is \<^verbatim>\<open>creqit.call({method: m})\<close> and \<open>CallDoc m\<close> the same with
  \<^verbatim>\<open>doc: frm.doc\<close>; \<open>Navigate v\<close> is \<^verbatim>\<open>window.location.href = v\<close>;
  \<open>Msgprint title message indicator\<close> is the dialog of \<^verbatim>\<open>creqit.msgprint\<close>,
  \<open>MsgprintAction title message label\<close> the one with a primary action, and
  \<open>MsgprintText\<close> the call with a text alone;
  \<open>WindowOpen url name w h dx dy\<close> opens a window of width \<open>w\<close> and height \<open>h\<close>
  placed at left \<open>dx / 2\<close> and top \<open>dy / 2\<close>. How the browser turns an embedded
  value into text is not part of the model.
\<close>

datatype 'n effect =
    AddCustomButton string string handler
  | AddIndicator "'n message" string
  | SetHeadlineAlert "'n message" string
  | Call string
  | CallDoc string
  | Msgprint "'n message" "'n message" string
  | MsgprintText "'n message"
  | MsgprintAction "'n message" "'n message" "'n message"
  | Confirm "'n message"
  | ShowAlert "'n message" string
  | Navigate "'n json option"
  | WindowOpen "'n message" string int int int int
  | ClipboardWrite "string option"
  | SetValue string string
  | ReloadDoc

text \<open>
  \<open>refresh\<close>. \<open>parse_date\<close> is \<^verbatim>\<open>new Date(s).getTime()\<close> in milliseconds, \<open>None\<close>
  for an invalid date; \<open>now\<close> is \<^verbatim>\<open>new Date()\<close>. The difference of two dates and its
  quotient by the milliseconds of a day are doubles in the script; every comparison the
  handler makes on them (with 0 and with 7) has the outcome it has on the integers used
  here. A comparison with NaN is false.
\<close>

definition days_remaining :: "(string \<Rightarrow> int option) \<Rightarrow> int \<Rightarrow> string \<Rightarrow> int option" where
  "days_remaining parse_date now s =
     (case parse_date s of
        None \<Rightarrow> None
      | Some expiry \<Rightarrow> Some ((expiry - now) div (1000 * 60 * 60 * 24)))"

definition num_less :: "int option \<Rightarrow> int \<Rightarrow> bool" where
  "num_less d k = (case d of None \<Rightarrow> False | Some n \<Rightarrow> n < k)"

definition oauth_buttons :: "settings_doc \<Rightarrow> 'n effect list" where
  "oauth_buttons doc =
     [AddCustomButton ''Authorize with Facebook'' ''OAuth2'' AuthorizeFacebook,
      AddCustomButton ''Check Token Status'' ''OAuth2'' CheckTokenStatus,
      AddCustomButton ''Test Callback URL'' ''OAuth2'' TestCallbackUrl] @
     (if truthy (access_token doc)
      then [AddCustomButton ''Refresh Token'' ''OAuth2'' RefreshToken]
      else [])"

definition webhook_buttons :: "settings_doc \<Rightarrow> 'n effect list" where
  "webhook_buttons doc =
     (if truthy (webhook_callback_url doc)
      then [AddCustomButton ''Copy Callback URL'' ''Webhook'' CopyCallbackUrl,
            AddCustomButton ''Copy Verify Token'' ''Webhook'' CopyVerifyToken,
            AddCustomButton ''Regenerate Verify Token'' ''Webhook'' RegenerateVerifyToken]
      else [])"

definition token_active :: "settings_doc \<Rightarrow> 'n effect list" where
  "token_active doc =
     (if truthy (access_token doc)
      then [AddIndicator [Tr ''Token Active'' []] ''green'']
      else [])"

definition expiry_warning ::
  "(string \<Rightarrow> int option) \<Rightarrow> int \<Rightarrow> settings_doc \<Rightarrow> 'n effect list" where
  "expiry_warning parse_date now doc =
     (case token_expiry doc of
        None \<Rightarrow> token_active doc
      | Some s \<Rightarrow>
          if s = [] then token_active doc
          else
            (let d = days_remaining parse_date now s in
             if num_less d 0 then
               [AddIndicator [Tr ''Token Expired'' []] ''red'',
                SetHeadlineAlert
                  [Tr ''Access token has expired. Please authorize again.'' []] ''red'']
             else if num_less d 7 then
               [AddIndicator [Tr ''Token Expiring Soon ({0} days)'' [Num d]] ''orange'']
             else
               [AddIndicator [Tr ''Token Valid ({0} days)'' [Num d]] ''green'']))"

definition refresh ::
  "(string \<Rightarrow> int option) \<Rightarrow> int \<Rightarrow> settings_doc \<Rightarrow> 'n effect list" where
  "refresh parse_date now doc =
     (if enabled doc \<and> truthy (app_id doc)
      then oauth_buttons doc @ webhook_buttons doc
      else []) @
     expiry_warning parse_date now doc"

text \<open>The field handler \<open>app_id\<close>: \<^verbatim>\<open>frm.set_value\<close> fills in the two default URLs.\<close>

definition app_id_changed :: "settings_doc \<Rightarrow> 'n effect list" where
  "app_id_changed doc =
     (if truthy (app_id doc) \<and> \<not> truthy (authorization_url doc)
      then [SetValue ''authorization_url'' ''https://www.facebook.com/v24.0/dialog/oauth'']
      else []) @
     (if truthy (app_id doc) \<and> \<not> truthy (access_token_url doc)
      then [SetValue ''access_token_url''
              ''https://graph.facebook.com/v24.0/oauth/access_token'']
      else [])"

text \<open>
  The button handlers. \<open>resp\<close> is \<^verbatim>\<open>r.message\<close> of the server's answer, \<open>None\<close> when
  it is undefined or the callback never runs; \<open>confirmed\<close> says whether the operator
  accepts the dialog of \<^verbatim>\<open>creqit.confirm\<close>; \<open>clicked\<close> whether the operator presses
  the primary action of the authorization dialog.
\<close>

definition authorize_facebook ::
  "('n \<Rightarrow> bool) \<Rightarrow> 'n json option \<Rightarrow> bool \<Rightarrow> int \<Rightarrow> int \<Rightarrow> 'n effect list" where
  \<open>authorize_facebook nb resp clicked screen_width screen_height =
     Call ''creqit.meta.FacebookLeadAds.oauth.get_authorization_url'' #
     (case resp of
        None \<Rightarrow> []
      | Some m \<Rightarrow>
          if to_boolean nb m \<and> tb nb (member m ''authorization_url'') then
            MsgprintAction
              [Tr ''Facebook Authorization'' []]
              [Tr ''You will be redirected to Facebook to authorize the application.'' [],
               Lit ''<br><br>'', Lit ''<strong>'', Tr ''Redirect URI:'' [],
               Lit ''</strong><br>'',
               Lit ''<code style="background: #f5f5f5; padding: 5px; display: block; margin: 5px 0;">'',
               Emb (member m ''redirect_uri''), Lit ''</code><br>'',
               Lit ''<small style="color: #666;">'',
               Tr ''Make sure this URL is added to your Facebook App settings.'' [],
               Lit ''</small>'']
              [Tr ''Authorize Now'' []] #
            (if clicked then
               [WindowOpen [Emb (member m ''authorization_url'')] ''Facebook Authorization''
                  600 700 (screen_width - 600) (screen_height - 700)]
             else [])
          else [])\<close>

text \<open>The text of the long-lived case; it starts with the check mark U+2705.\<close>

definition long_lived_text :: string where
  \<open>long_lived_text =
     [CHR 0xE2, CHR 0x9C, CHR 0x85] @
     '' Token is active (long-lived token, no expiry)<br><small style="color: #666;">This is normal for some Facebook tokens.</small>''\<close>

text \<open>\<open>lt7\<close> is the comparison \<^verbatim>\<open>v < 7\<close> of JavaScript on a value of the response.\<close>

definition status_message ::
  "('n \<Rightarrow> bool) \<Rightarrow> ('n json \<Rightarrow> bool) \<Rightarrow> 'n json \<Rightarrow> 'n message \<times> string" where
  \<open>status_message nb lt7 status =
     (if \<not> tb nb (member status ''has_token'') then
        ([Tr ''No access token configured'' []], ''red'')
      else if tb nb (member status ''is_expired'') then
        ([Tr ''Token has expired. Please re-authorize.'' []], ''red'')
      else
        (case member status ''expires_in_days'' of
           Some days \<Rightarrow>
             ([Tr ''Token is valid. Expires in {0} days ({1} seconds)''
                 [Val (Some days), Val (member status ''expires_in_seconds'')]],
              if lt7 days then ''orange'' else ''green'')
         | None \<Rightarrow>
             if tb nb (member status ''is_long_lived'') then
               ([Tr long_lived_text []], ''green'')
             else
               ([Tr ''Token is active'' []], ''green'')))\<close>

definition check_token_status ::
  "('n \<Rightarrow> bool) \<Rightarrow> ('n json \<Rightarrow> bool) \<Rightarrow> 'n json option \<Rightarrow> 'n effect list" where
  "check_token_status nb lt7 resp =
     Call ''creqit.meta.FacebookLeadAds.oauth.get_token_info'' #
     (case resp of
        None \<Rightarrow> []
      | Some status \<Rightarrow>
          if to_boolean nb status then
            [Msgprint [Tr ''Token Status'' []]
               (fst (status_message nb lt7 status)) (snd (status_message nb lt7 status))]
          else [])"

definition refresh_token ::
  "('n \<Rightarrow> bool) \<Rightarrow> bool \<Rightarrow> 'n json option \<Rightarrow> 'n effect list" where
  "refresh_token nb confirmed resp =
     Confirm [Tr ''This will redirect you to Facebook to re-authorize. Continue?'' []] #
     (if confirmed then
        Call ''creqit.meta.FacebookLeadAds.oauth.refresh_token'' #
        (case resp of
           None \<Rightarrow> []
         | Some m \<Rightarrow>
             if to_boolean nb m \<and> tb nb (member m ''authorization_url'')
             then [Navigate (member m ''authorization_url'')]
             else [])
      else [])"

definition test_callback_url :: "string \<Rightarrow> int \<Rightarrow> int \<Rightarrow> 'n effect list" where
  "test_callback_url origin screen_width screen_height =
     [WindowOpen
        [Lit (origin @ ''/api/method/creqit.meta.FacebookLeadAds.oauth.test_callback'')]
        ''Callback URL Test'' 800 700 (screen_width - 800) (screen_height - 700)]"

text \<open>\<open>written\<close> says whether \<^verbatim>\<open>navigator.clipboard.writeText\<close> fulfils its promise.\<close>

definition copy_to_clipboard :: "string option \<Rightarrow> string \<Rightarrow> bool \<Rightarrow> 'n effect list" where
  "copy_to_clipboard txt label written =
     ClipboardWrite txt #
     (if written
      then [ShowAlert [Tr ''{0} copied to clipboard!'' [Str label]] ''green'']
      else [MsgprintText [Tr ''Failed to copy: {0}'' [Rejection]]])"

definition regenerate_verify_token ::
  "('n \<Rightarrow> bool) \<Rightarrow> bool \<Rightarrow> 'n json option \<Rightarrow> 'n effect list" where
  "regenerate_verify_token nb confirmed resp =
     Confirm [Tr ''This will generate a new verify token. You will need to update it in Facebook. Continue?'' []] #
     (if confirmed then
        CallDoc ''regenerate_verify_token'' #
        (case resp of
           None \<Rightarrow> []
         | Some m \<Rightarrow>
             if to_boolean nb m
             then [ShowAlert [Emb (member m ''message'')] ''orange'', ReloadDoc]
             else [])
      else [])"

text \<open>
  What surrounds one run of a handler: the operator's answers, the server's answer, the
  copy of the document the server holds (what \<^verbatim>\<open>frm.reload_doc\<close> fetches), the
  clipboard, the window.
\<close>

record 'n env =
  operator_confirms :: bool
  operator_clicks :: bool
  answer :: "'n json option"
  server_doc :: settings_doc
  clipboard_written :: bool
  window_origin :: string
  screen_w :: int
  screen_h :: int

definition run_handler ::
  "('n \<Rightarrow> bool) \<Rightarrow> ('n json \<Rightarrow> bool) \<Rightarrow> 'n env \<Rightarrow> settings_doc \<Rightarrow> handler \<Rightarrow>
     'n effect list" where
  "run_handler nb lt7 env doc h =
     (case h of
        AuthorizeFacebook \<Rightarrow>
          authorize_facebook nb (answer env) (operator_clicks env) (screen_w env) (screen_h env)
      | CheckTokenStatus \<Rightarrow> check_token_status nb lt7 (answer env)
      | TestCallbackUrl \<Rightarrow> test_callback_url (window_origin env) (screen_w env) (screen_h env)
      | RefreshToken \<Rightarrow> refresh_token nb (operator_confirms env) (answer env)
      | CopyCallbackUrl \<Rightarrow>
          copy_to_clipboard (webhook_callback_url doc) ''Callback URL'' (clipboard_written env)
      | CopyVerifyToken \<Rightarrow>
          copy_to_clipboard (webhook_verify_token doc) ''Verify Token'' (clipboard_written env)
      | RegenerateVerifyToken \<Rightarrow>
          regenerate_verify_token nb (operator_confirms env) (answer env))"

text \<open>
  The two operations of the framework that change \<^verbatim>\<open>frm.doc\<close>: \<^verbatim>\<open>frm.set_value\<close>
  stores a value in a field, \<^verbatim>\<open>frm.reload_doc\<close> replaces the document by the
  server's copy. No other effect touches the document.
\<close>

definition set_value :: "string \<Rightarrow> string \<Rightarrow> settings_doc \<Rightarrow> settings_doc" where
  "set_value field v doc =
     (if field = ''app_id'' then doc\<lparr>app_id := Some v\<rparr>
      else if field = ''access_token'' then doc\<lparr>access_token := Some v\<rparr>
      else if field = ''token_expiry'' then doc\<lparr>token_expiry := Some v\<rparr>
      else if field = ''authorization_url'' then doc\<lparr>authorization_url := Some v\<rparr>
      else if field = ''access_token_url'' then doc\<lparr>access_token_url := Some v\<rparr>
      else if field = ''webhook_callback_url'' then doc\<lparr>webhook_callback_url := Some v\<rparr>
      else if field = ''webhook_verify_token'' then doc\<lparr>webhook_verify_token := Some v\<rparr>
      else doc)"

fun apply_effect :: "'n env \<Rightarrow> settings_doc \<Rightarrow> 'n effect \<Rightarrow> settings_doc" where
  "apply_effect env doc (SetValue field v) = set_value field v doc"
| "apply_effect env doc ReloadDoc = server_doc env"
| "apply_effect env doc e = doc"

text \<open>
  The operations of the form: the two form events, and a click on a custom button. An
  operation yields the document it leaves and the effects it had.
\<close>

datatype operation = OnRefresh | OnAppId | Click handler

definition effects_of ::
  "('n \<Rightarrow> bool) \<Rightarrow> ('n json \<Rightarrow> bool) \<Rightarrow> (string \<Rightarrow> int option) \<Rightarrow> int \<Rightarrow> 'n env \<Rightarrow>
     operation \<Rightarrow> settings_doc \<Rightarrow> 'n effect list" where
  "effects_of nb lt7 parse_date now env op doc =
     (case op of
        OnRefresh \<Rightarrow> refresh parse_date now doc
      | OnAppId \<Rightarrow> app_id_changed doc
      | Click h \<Rightarrow> run_handler nb lt7 env doc h)"

definition perform ::
  "('n \<Rightarrow> bool) \<Rightarrow> ('n json \<Rightarrow> bool) \<Rightarrow> (string \<Rightarrow> int option) \<Rightarrow> int \<Rightarrow> 'n env \<Rightarrow>
     operation \<Rightarrow> settings_doc \<Rightarrow> settings_doc \<times> 'n effect list" where
  "perform nb lt7 parse_date now env op doc =
     (foldl (apply_effect env) doc (effects_of nb lt7 parse_date now env op doc),
      effects_of nb lt7 parse_date now env op doc)"

section \<open>The integration service of the specification\<close>

text \<open>
  The server side of the integration (the token report behind
  \<^verbatim>\<open>oauth.get_token_info\<close> and the webhook receiver \<^verbatim>\<open>webhook.handle_webhook\<close>) is
  not among the sources. The definitions of this section follow the words of the
  specification instead. Times are in seconds.
\<close>

record token_record =
  tr_access_token :: string
  expires_at :: "int option"
  obtained_at :: int

record token_status =
  has_token :: bool
  is_expired :: bool
  is_long_lived :: bool
  expires_in_seconds :: "int option"

text \<open>
  Modelled from the spec: \<open>check_status\<close>, the token report (the body of the server
  method \<^verbatim>\<open>get_token_info\<close> is missing). The store holds a record or none; a record
  whose \<open>expires_at\<close> is present and in the past is expired; a record without
  \<open>expires_at\<close> is long-lived.
\<close>

definition check_status :: "int \<Rightarrow> token_record option \<Rightarrow> token_status" where
  "check_status now store =
     (case store of
        None \<Rightarrow>
          \<lparr>has_token = False, is_expired = False, is_long_lived = False,
           expires_in_seconds = None\<rparr>
      | Some r \<Rightarrow>
          \<lparr>has_token = True,
           is_expired = (case expires_at r of None \<Rightarrow> False | Some e \<Rightarrow> e < now),
           is_long_lived = (expires_at r = None),
           expires_in_seconds = map_option (\<lambda>e. e - now) (expires_at r)\<rparr>)"

text \<open>
  Modelled from the spec: the report as the object the form script receives, with the
  four members the specification names (how the missing server method encodes it).
  \<open>num\<close> makes a JSON number of an integer.
\<close>

definition status_json :: "(int \<Rightarrow> 'n) \<Rightarrow> token_status \<Rightarrow> 'n json" where
  "status_json num st =
     JObj [(''has_token'', JBool (has_token st)),
           (''is_expired'', JBool (is_expired st)),
           (''is_long_lived'', JBool (is_long_lived st)),
           (''expires_in_seconds'',
              (case expires_in_seconds st of None \<Rightarrow> JNull | Some k \<Rightarrow> JNum (num k)))]"

record webhook_subscription =
  name :: string
  page_id :: string
  form_id :: string
  verify_token :: string
  sub_enabled :: bool
  lead_count :: nat
  last_lead_received_at :: "int option"

datatype http_response = Ok string | Forbidden

text \<open>
  Modelled from the spec: the verification gate of the webhook receiver (the GET
  handshake of the missing \<^verbatim>\<open>handle_webhook\<close>). The challenge is returned as it came
  when the supplied verify_token is the stored one, and the request is rejected with
  403 otherwise.
\<close>

definition verify_handshake :: "webhook_subscription \<Rightarrow> string \<Rightarrow> string \<Rightarrow> http_response" where
  "verify_handshake sub supplied challenge =
     (if supplied = verify_token sub then Ok challenge else Forbidden)"

datatype webhook_error = SignatureInvalid | MalformedPayload

text \<open>
  Modelled from the spec: parsing of a delivery (missing with \<^verbatim>\<open>handle_webhook\<close>). The
  payload nests entry, changes and value: an entry is an object whose member
  \<^verbatim>\<open>changes\<close> is a list, a change is an object with a member \<^verbatim>\<open>value\<close>, and a value
  decodes to a lead event. The specification does not name the members of a value, so
  \<open>decode\<close> is a parameter (\<open>None\<close> for a value it cannot read). An entry with a part
  that does not fit is malformed as a whole.
\<close>

fun parse_changes :: "('n json \<Rightarrow> 'l option) \<Rightarrow> 'n json list \<Rightarrow> webhook_error + 'l list" where
  "parse_changes decode [] = Inr []"
| "parse_changes decode (c # cs) =
     (case member c ''value'' of
        None \<Rightarrow> Inl MalformedPayload
      | Some v \<Rightarrow>
          (case decode v of
             None \<Rightarrow> Inl MalformedPayload
           | Some l \<Rightarrow>
               (case parse_changes decode cs of
                  Inl e \<Rightarrow> Inl e
                | Inr ls \<Rightarrow> Inr (l # ls))))"

definition parse_entry :: "('n json \<Rightarrow> 'l option) \<Rightarrow> 'n json \<Rightarrow> webhook_error + 'l list" where
  "parse_entry decode entry =
     (case member entry ''changes'' of
        Some (JArr cs) \<Rightarrow> parse_changes decode cs
      | _ \<Rightarrow> Inl MalformedPayload)"

text \<open>
  Modelled from the spec: best-effort processing of the entries of one delivery. The
  events of every entry that parses are dispatched, in order; an entry that does not
  parse is counted as a failure and its siblings are processed all the same.
\<close>

fun process_entries :: "('n json \<Rightarrow> 'l option) \<Rightarrow> 'n json list \<Rightarrow> 'l list \<times> nat" where
  "process_entries decode [] = ([], 0)"
| "process_entries decode (e # es) =
     (case parse_entry decode e of
        Inl err \<Rightarrow> (fst (process_entries decode es), Suc (snd (process_entries decode es)))
      | Inr ls \<Rightarrow> (ls @ fst (process_entries decode es), snd (process_entries decode es)))"

section \<open>Notions used in the statements\<close>

text \<open>
  The entity of a character: what \<open>escape_html\<close> is meant to put in its place. The five
  special characters have one, every other character stands for itself.
\<close>

definition entity :: "char \<Rightarrow> string" where
  \<open>entity c =
     (if c = CHR ''&'' then ''&amp;''
      else if c = CHR ''<'' then ''&lt;''
      else if c = CHR ''>'' then ''&gt;''
      else if c = CHR ''"'' then ''&quot;''
      else if c = CHR 0x27 then ''&#39;''
      else [c])\<close>

text \<open>
  A rendered row \<open>h\<close> of the row \<open>r\<close>: its first five cells are \<open>escape_html\<close> of the
  five text members, in the order of the header.
\<close>

definition escaped_row ::
  "('n \<Rightarrow> bool) \<Rightarrow> ('n \<Rightarrow> string) \<Rightarrow> 'n json \<Rightarrow> string \<Rightarrow> bool" where
  "escaped_row nb ns r h =
     (\<exists>p c b ci co t.
        cell_value nb ns r ''page_name'' = Inr p \<and>
        cell_value nb ns r ''category'' = Inr c \<and>
        cell_value nb ns r ''business_name'' = Inr b \<and>
        cell_value nb ns r ''city'' = Inr ci \<and>
        cell_value nb ns r ''country'' = Inr co \<and>
        h = row_html [escape_html p, escape_html c, escape_html b, escape_html ci,
                      escape_html co, t])"

text \<open>An effect that cannot change the verify token of the document.\<close>

definition keeps_token :: "'n effect \<Rightarrow> bool" where
  "keeps_token e = (e \<noteq> ReloadDoc \<and> (\<forall>v. e \<noteq> SetValue ''webhook_verify_token'' v))"

section \<open>Sample inputs\<close>

text \<open>
  Concrete inputs at which the theorems below are run: a settings document whose token
  expired on 1 January 2025, a clock in November 2025, a date parser that knows this one
  date, and answers of the server.
\<close>

definition sample_doc :: settings_doc where
  "sample_doc =
     \<lparr>enabled = True, app_id = Some ''1234'', access_token = Some ''EAAB'',
      token_expiry = Some ''2025-01-01 00:00:00'', authorization_url = None,
      access_token_url = None, webhook_callback_url = Some ''https://site/hook'',
      webhook_verify_token = Some ''vt1''\<rparr>"

definition sample_dates :: "string \<Rightarrow> int option" where
  "sample_dates = [''2025-01-01 00:00:00'' \<mapsto> 1735689600000]"

definition sample_now :: int where
  "sample_now = 1762000000000"

definition sample_env :: "nat env" where
  "sample_env =
     \<lparr>operator_confirms = True, operator_clicks = True,
      answer = Some (JObj [(''message'', JStr ''Verify token regenerated'')]),
      server_doc = sample_doc\<lparr>webhook_verify_token := Some ''vt2''\<rparr>,
      clipboard_written = True, window_origin = ''https://site'',
      screen_w = 1920, screen_h = 1080\<rparr>"

definition sample_redirect :: "nat json" where
  "sample_redirect =
     JObj [(''authorization_url'', JStr ''https://www.facebook.com/v24.0/dialog/oauth?client_id=1234'')]"

definition sample_status :: "nat json" where
  "sample_status =
     JObj [(''has_token'', JBool True), (''is_expired'', JBool True),
           (''is_long_lived'', JBool True)]"

definition sample_long_lived :: "nat json" where
  "sample_long_lived =
     JObj [(''has_token'', JBool True), (''is_expired'', JBool False),
           (''is_long_lived'', JBool True)]"

definition sample_decode :: "nat json \<Rightarrow> string option" where
  "sample_decode v = (case member v ''leadgen_id'' of Some (JStr l) \<Rightarrow> Some l | _ \<Rightarrow> None)"

definition sample_entry :: "string \<Rightarrow> nat json" where
  "sample_entry l = JObj [(''changes'', JArr [JObj [(''value'', JObj [(''leadgen_id'', JStr l)])]])]"

definition sample_bad_entry :: "nat json" where
  "sample_bad_entry = JObj [(''changes'', JStr ''none'')]"

section \<open>Properties of the accounts table\<close>

lemma replace_all_concat:
  "replace_all c rep (concat (map f s)) = concat (map (\<lambda>x. replace_all c rep (f x)) s)"
  by (induction s) (simp_all add: replace_all_def)

lemma replace_all_single:
  "replace_all c rep s = concat (map (\<lambda>x. replace_all c rep [x]) s)"
  by (simp add: replace_all_def)

lemma escape_html_entities: "escape_html s = concat (map entity s)"
proof -
  have e: "\<And>x. replace_all (CHR 0x27) ''&#39;''
       (replace_all (CHR 0x22) ''&quot;''
         (replace_all (CHR ''>'') ''&gt;''
           (replace_all (CHR ''<'') ''&lt;''
             (replace_all (CHR ''&'') ''&amp;'' [x])))) = entity x"
    by (simp add: replace_all_def entity_def)
  show ?thesis
    unfolding escape_html_def
    apply (subst replace_all_single [of "CHR ''&''"])
    apply (simp only: replace_all_concat)
    apply (simp only: e)
    done
qed

lemma entity_clean:
  \<open>CHR ''<'' \<notin> set (entity c) \<and> CHR ''>'' \<notin> set (entity c) \<and>
   CHR ''"'' \<notin> set (entity c) \<and> CHR 0x27 \<notin> set (entity c)\<close>
  by (simp add: entity_def)

lemma escape_html_clean:
  \<open>CHR ''<'' \<notin> set (escape_html s) \<and> CHR ''>'' \<notin> set (escape_html s) \<and>
   CHR ''"'' \<notin> set (escape_html s) \<and> CHR 0x27 \<notin> set (escape_html s)\<close>
  using entity_clean by (auto simp: escape_html_entities)

lemma render_row_Inr:
  assumes "render_row nb ns r = Inr h"
  shows "escaped_row nb ns r h"
  using assms
  unfolding render_row_def row_cells_def text_cell_def escaped_row_def
  by (auto split: sum.splits)

lemma render_rows_Inr:
  "render_rows nb ns rs = Inr trs \<Longrightarrow> list_all2 (escaped_row nb ns) rs trs"
proof (induction rs arbitrary: trs)
  case Nil
  then show ?case by simp
next
  case (Cons r rs)
  then show ?case
    by (auto split: sum.splits dest: render_row_Inr)
qed

lemma rendered_table_rows:
  assumes "render_accounts_table parse nb ns doc = Inr html"
  shows "html = invalid_html \<or> html = empty_html \<or>
         (\<exists>rs trs. parse (raw_json doc) = Some (JArr rs) \<and> html = table_html trs \<and>
                    list_all2 (escaped_row nb ns) rs trs)"
  using assms unfolding render_accounts_table_def
  by (auto split: option.splits sum.splits bool.splits json.splits dest: render_rows_Inr)

text \<open>
  C9. For every string \<open>s\<close>, \<open>escape_html s\<close> contains none of the characters
  \<^verbatim>\<open><\<close>, \<^verbatim>\<open>>\<close>, \<^verbatim>\<open>"\<close> and \<^verbatim>\<open>'\<close>: it is \<open>s\<close> with every character replaced by
  its entity, and since the ampersand is replaced first the ampersands of the entities
  are not escaped again. Whatever \<open>render_accounts_table\<close> puts into the container is
  one of its two messages or a table whose rows have \<open>escape_html\<close> of the page_name,
  category, business_name, city and country values as their first five cells.
\<close>

theorem escape_html_in_table:
  \<open>(CHR ''<'' \<notin> set (escape_html s) \<and> CHR ''>'' \<notin> set (escape_html s) \<and>
    CHR ''"'' \<notin> set (escape_html s) \<and> CHR 0x27 \<notin> set (escape_html s)) \<and>
   escape_html s = concat (map entity s) \<and>
   (render_accounts_table parse nb ns doc = Inr html \<longrightarrow>
      html = invalid_html \<or> html = empty_html \<or>
      (\<exists>rs trs. parse (raw_json doc) = Some (JArr rs) \<and> html = table_html trs \<and>
                 list_all2 (escaped_row nb ns) rs trs))\<close>
  using escape_html_clean [of s] escape_html_entities [of s]
    rendered_table_rows [of parse nb ns doc html]
  by blast

theorem escape_html_in_table_witness:
  \<open>render_accounts_table
      [''[{"city":"<b>"}]'' \<mapsto> JArr [JObj [(''city'', JStr ''<b>'')]]]
      (\<lambda>n::nat. n \<noteq> 0) (\<lambda>n. ''0'')
      \<lparr>accounts_json = Some ''[{"city":"<b>"}]''\<rparr> =
    Inr (table_html [row_html [[], [], [], ''&lt;b&gt;'', [], []]]) \<and>
   (\<exists>rs trs.
      [''[{"city":"<b>"}]'' \<mapsto> JArr [JObj [(''city'', JStr ''<b>'')]]]
        (raw_json \<lparr>accounts_json = Some ''[{"city":"<b>"}]''\<rparr>) = Some (JArr rs) \<and>
      table_html [row_html [[], [], [], ''&lt;b&gt;'', [], []]] = table_html trs \<and>
      list_all2 (escaped_row (\<lambda>n::nat. n \<noteq> 0) (\<lambda>n. ''0'')) rs trs)\<close>
proof -
  let ?parse = \<open>[''[{"city":"<b>"}]'' \<mapsto> JArr [JObj [(''city'', JStr ''<b>'')]]]
                :: string \<Rightarrow> nat json option\<close>
  let ?doc = \<open>\<lparr>accounts_json = Some ''[{"city":"<b>"}]''\<rparr>\<close>
  let ?html = \<open>table_html [row_html [[], [], [], ''&lt;b&gt;'', [], []]]\<close>
  have run: "render_accounts_table ?parse (\<lambda>n. n \<noteq> 0) (\<lambda>n. ''0'') ?doc = Inr ?html"
    by (simp add: render_accounts_table_def raw_json_def render_row_def row_cells_def
        text_cell_def cell_value_def tasks_cell_def get_member_def or_empty_def
        own_prop_def escape_html_def replace_all_def)
  have a: "?html \<noteq> invalid_html"
    by (simp add: table_html_def invalid_html_def)
  have b: "?html \<noteq> empty_html"
    by (simp add: table_html_def empty_html_def)
  from escape_html_in_table [of "[]" ?parse "\<lambda>n. n \<noteq> 0" "\<lambda>n. ''0''" ?doc ?html] run a b
  show ?thesis by blast
qed

lemma invalid_json_message:
  "parse (raw_json doc) = None \<Longrightarrow> render_accounts_table parse nb ns doc = Inr invalid_html"
  by (simp add: render_accounts_table_def)

lemma empty_array_message:
  "parse (raw_json doc) = Some (JArr []) \<Longrightarrow>
     render_accounts_table parse nb ns doc = Inr empty_html"
  by (simp add: render_accounts_table_def)

text \<open>
  When \<open>render_accounts_table\<close> throws: the text parses, and the value is null, a
  non-empty string, an object with a truthy \<^verbatim>\<open>length\<close>, or a non-empty array with a
  row that cannot be rendered (a null row, or a member that has no string form).
\<close>

lemma render_accounts_table_throws_iff:
  "render_accounts_table parse nb ns doc = Inl TypeError \<longleftrightarrow>
     (\<exists>rows. parse (raw_json doc) = Some rows \<and>
        (rows = JNull \<or>
         (\<exists>s. rows = JStr s \<and> s \<noteq> []) \<or>
         (\<exists>kvs. rows = JObj kvs \<and> tb nb (own_prop kvs ''length'')) \<or>
         (\<exists>rs. rows = JArr rs \<and> rs \<noteq> [] \<and> render_rows nb ns rs = Inl TypeError)))"
proof (cases "parse (raw_json doc)")
  case None
  then show ?thesis by (simp add: render_accounts_table_def)
next
  case (Some rows)
  then show ?thesis
    by (cases rows) (auto simp: render_accounts_table_def split: sum.splits bool.splits)
qed

text \<open>
  C10. \<open>render_accounts_table\<close> is not total over \<^verbatim>\<open>accounts_json\<close>: the text
  \<^verbatim>\<open>null\<close> is valid JSON, \<^verbatim>\<open>JSON.parse\<close> returns null for it, and the read of
  \<^verbatim>\<open>rows.length\<close> throws a TypeError that nothing catches. (The statement holds for
  every parser that reads \<^verbatim>\<open>null\<close> as null.)
\<close>

theorem render_accounts_table_null_throws:
  "render_accounts_table (parse(''null'' \<mapsto> JNull)) nb ns \<lparr>accounts_json = Some ''null''\<rparr> =
     Inl TypeError"
  by (simp add: render_accounts_table_def raw_json_def)

section \<open>Properties of the settings form\<close>

subsection \<open>The expiry warning of \<open>refresh\<close>\<close>

lemma days_remaining_past:
  assumes "parse_date s = Some t" and "t < now"
  shows "num_less (days_remaining parse_date now s) 0"
proof -
  have "t - now < 0" using assms(2) by simp
  then have "(t - now) div (1000 * 60 * 60 * 24) < 0"
    by (simp add: div_neg_pos_less0)
  then show ?thesis
    using assms(1) by (simp add: days_remaining_def num_less_def)
qed

lemma buttons_no_indicator:
  "AddIndicator m c \<notin> set (oauth_buttons doc @ webhook_buttons doc)"
  by (simp add: oauth_buttons_def webhook_buttons_def)

lemma expiry_warning_past:
  assumes "token_expiry doc = Some s" and "s \<noteq> []"
    and "parse_date s = Some t" and "t < now"
  shows "expiry_warning parse_date now doc =
           [AddIndicator [Tr ''Token Expired'' []] ''red'',
            SetHeadlineAlert [Tr ''Access token has expired. Please authorize again.'' []] ''red'']"
  using assms days_remaining_past [of parse_date s t now]
  by (simp add: expiry_warning_def)

text \<open>
  C1. For every settings document whose \<open>token_expiry\<close> (a date: a non-empty text that
  parses) is strictly earlier than the current time, \<open>refresh\<close> shows the red indicator
  \<^verbatim>\<open>Token Expired\<close> and the red headline alert that asks to authorize again, and every
  indicator it shows is that red one: none is green.
\<close>

theorem expired_token_shown_red:
  fixes doc :: settings_doc
  assumes "token_expiry doc = Some s" and "s \<noteq> []"
    and "parse_date s = Some t" and "t < now"
  shows "AddIndicator [Tr ''Token Expired'' []] ''red''
           \<in> set (refresh parse_date now doc :: 'n effect list) \<and>
         SetHeadlineAlert [Tr ''Access token has expired. Please authorize again.'' []] ''red''
           \<in> set (refresh parse_date now doc :: 'n effect list) \<and>
         (\<forall>m c. AddIndicator m c \<in> set (refresh parse_date now doc :: 'n effect list) \<longrightarrow>
                  m = [Tr ''Token Expired'' []] \<and> c = ''red'')"
proof -
  have w: "(expiry_warning parse_date now doc :: 'n effect list) =
           [AddIndicator [Tr ''Token Expired'' []] ''red'',
            SetHeadlineAlert [Tr ''Access token has expired. Please authorize again.'' []] ''red'']"
    using assms by (rule expiry_warning_past)
  have b: "\<And>m c. AddIndicator m c \<notin> set (oauth_buttons doc @ webhook_buttons doc :: 'n effect list)"
    by (rule buttons_no_indicator)
  show ?thesis
    using b by (auto simp: refresh_def w)
qed

theorem expired_token_shown_red_witness:
  "token_expiry sample_doc = Some ''2025-01-01 00:00:00'' \<and>
   sample_dates ''2025-01-01 00:00:00'' = Some 1735689600000 \<and>
   (1735689600000 :: int) < sample_now \<and>
   AddIndicator [Tr ''Token Expired'' []] ''red''
     \<in> set (refresh sample_dates sample_now sample_doc :: nat effect list) \<and>
   AddIndicator [Tr ''Token Active'' []] ''green''
     \<notin> set (refresh sample_dates sample_now sample_doc :: nat effect list)"
proof -
  have h1: "token_expiry sample_doc = Some ''2025-01-01 00:00:00''"
    by (simp add: sample_doc_def)
  have h2: "''2025-01-01 00:00:00'' \<noteq> []" by simp
  have h3: "sample_dates ''2025-01-01 00:00:00'' = Some 1735689600000"
    by (simp add: sample_dates_def)
  have h4: "(1735689600000 :: int) < sample_now" by (simp add: sample_now_def)
  from h1 h2 h3 h4
    expired_token_shown_red [where 'n = nat and doc = sample_doc
      and s = "''2025-01-01 00:00:00''" and parse_date = sample_dates
      and t = 1735689600000 and now = sample_now]
  show ?thesis by blast
qed

subsection \<open>The token status dialog\<close>

lemma expired_first:
  assumes "tb nb (member status ''has_token'')" and "tb nb (member status ''is_expired'')"
  shows "status_message nb lt7 status =
           ([Tr ''Token has expired. Please re-authorize.'' []], ''red'')"
  using assms by (simp add: status_message_def)

lemma long_lived_green:
  assumes "tb nb (member status ''has_token'')" and "\<not> tb nb (member status ''is_expired'')"
    and "member status ''expires_in_days'' = None" and "tb nb (member status ''is_long_lived'')"
  shows "status_message nb lt7 status = ([Tr long_lived_text []], ''green'')"
  using assms by (simp add: status_message_def)

lemma member_status_json:
  "member (status_json num st) ''has_token'' = Some (JBool (has_token st))"
  "member (status_json num st) ''is_expired'' = Some (JBool (is_expired st))"
  "member (status_json num st) ''is_long_lived'' = Some (JBool (is_long_lived st))"
  "member (status_json num st) ''expires_in_days'' = None"
  by (simp_all add: status_json_def own_prop_def)

lemma status_json_truthy: "to_boolean nb (status_json num st)"
  by (simp add: status_json_def)

lemma check_status_past:
  "is_expired (check_status now
      (Some \<lparr>tr_access_token = tok, expires_at = Some (now - 10), obtained_at = t0\<rparr>)) \<and>
   has_token (check_status now
      (Some \<lparr>tr_access_token = tok, expires_at = Some (now - 10), obtained_at = t0\<rparr>))"
  by (simp add: check_status_def)

lemma check_status_no_expiry:
  "is_long_lived (check_status now
      (Some \<lparr>tr_access_token = tok, expires_at = None, obtained_at = t0\<rparr>)) \<and>
   \<not> is_expired (check_status now
      (Some \<lparr>tr_access_token = tok, expires_at = None, obtained_at = t0\<rparr>))"
  by (simp add: check_status_def)

lemma report_expired:
  "check_token_status nb lt7
     (Some (status_json num (check_status now
        (Some \<lparr>tr_access_token = tok, expires_at = Some (now - 10), obtained_at = t0\<rparr>)))) =
   [Call ''creqit.meta.FacebookLeadAds.oauth.get_token_info'',
    Msgprint [Tr ''Token Status'' []] [Tr ''Token has expired. Please re-authorize.'' []] ''red'']"
  using check_status_past [of now tok t0]
  by (simp add: check_token_status_def status_json_truthy expired_first member_status_json tb_def)

lemma report_long_lived:
  "check_token_status nb lt7
     (Some (status_json num (check_status now
        (Some \<lparr>tr_access_token = tok, expires_at = None, obtained_at = t0\<rparr>)))) =
   [Call ''creqit.meta.FacebookLeadAds.oauth.get_token_info'',
    Msgprint [Tr ''Token Status'' []] [Tr long_lived_text []] ''green'']"
proof -
  let ?st = "check_status now
      (Some \<lparr>tr_access_token = tok, expires_at = None, obtained_at = t0\<rparr>)"
  have "has_token ?st" by (simp add: check_status_def)
  then have "status_message nb lt7 (status_json num ?st) = ([Tr long_lived_text []], ''green'')"
    using check_status_no_expiry [of now tok t0]
    by (intro long_lived_green) (simp_all add: member_status_json tb_def)
  then show ?thesis
    by (simp add: check_token_status_def status_json_truthy)
qed

text \<open>
  C2. The token report (modelled from the specification): a record whose \<open>expires_at\<close>
  lies 10 seconds in the past reports \<open>is_expired\<close> and \<open>has_token\<close>; a record without
  \<open>expires_at\<close> reports \<open>is_long_lived\<close> and not \<open>is_expired\<close>. The consumer
  \<open>check_token_status\<close> (from the form script): a report with a token that is expired
  gets the red text \<^verbatim>\<open>Token has expired\<close> whatever it says about being long-lived; a
  report with a token that is not expired, carries no \<^verbatim>\<open>expires_in_days\<close> and is
  long-lived gets the green long-lived text. Both hold of the two reports above when
  they reach the consumer.
\<close>

theorem token_status_reports:
  "(is_expired (check_status now
      (Some \<lparr>tr_access_token = tok, expires_at = Some (now - 10), obtained_at = t0\<rparr>)) \<and>
    has_token (check_status now
      (Some \<lparr>tr_access_token = tok, expires_at = Some (now - 10), obtained_at = t0\<rparr>))) \<and>
   (is_long_lived (check_status now
      (Some \<lparr>tr_access_token = tok, expires_at = None, obtained_at = t0\<rparr>)) \<and>
    \<not> is_expired (check_status now
      (Some \<lparr>tr_access_token = tok, expires_at = None, obtained_at = t0\<rparr>))) \<and>
   (tb nb (member status ''has_token'') \<and> tb nb (member status ''is_expired'') \<longrightarrow>
      status_message nb lt7 status =
        ([Tr ''Token has expired. Please re-authorize.'' []], ''red'')) \<and>
   (tb nb (member status ''has_token'') \<and> \<not> tb nb (member status ''is_expired'') \<and>
    member status ''expires_in_days'' = None \<and> tb nb (member status ''is_long_lived'') \<longrightarrow>
      status_message nb lt7 status = ([Tr long_lived_text []], ''green'')) \<and>
   check_token_status nb lt7
     (Some (status_json num (check_status now
        (Some \<lparr>tr_access_token = tok, expires_at = Some (now - 10), obtained_at = t0\<rparr>)))) =
     [Call ''creqit.meta.FacebookLeadAds.oauth.get_token_info'',
      Msgprint [Tr ''Token Status'' []]
        [Tr ''Token has expired. Please re-authorize.'' []] ''red''] \<and>
   check_token_status nb lt7
     (Some (status_json num (check_status now
        (Some \<lparr>tr_access_token = tok, expires_at = None, obtained_at = t0\<rparr>)))) =
     [Call ''creqit.meta.FacebookLeadAds.oauth.get_token_info'',
      Msgprint [Tr ''Token Status'' []] [Tr long_lived_text []] ''green'']"
  using check_status_past [of now tok t0] check_status_no_expiry [of now tok t0]
    expired_first [of nb status lt7] long_lived_green [of nb status lt7]
    report_expired [of nb lt7 num now tok t0] report_long_lived [of nb lt7 num now tok t0]
  by blast

theorem token_status_reports_witness:
  "tb ((<) 0) (member sample_status ''has_token'') \<and>
   tb ((<) 0) (member sample_status ''is_expired'') \<and>
   tb ((<) 0) (member sample_status ''is_long_lived'') \<and>
   status_message ((<) 0) (\<lambda>v. False) sample_status =
     ([Tr ''Token has expired. Please re-authorize.'' []], ''red'') \<and>
   tb ((<) 0) (member sample_long_lived ''has_token'') \<and>
   \<not> tb ((<) 0) (member sample_long_lived ''is_expired'') \<and>
   member sample_long_lived ''expires_in_days'' = None \<and>
   tb ((<) 0) (member sample_long_lived ''is_long_lived'') \<and>
   status_message ((<) 0) (\<lambda>v. False) sample_long_lived = ([Tr long_lived_text []], ''green'')"
proof -
  have a: "tb ((<) 0) (member sample_status ''has_token'') \<and>
           tb ((<) 0) (member sample_status ''is_expired'') \<and>
           tb ((<) 0) (member sample_status ''is_long_lived'')"
    by (simp add: sample_status_def own_prop_def tb_def)
  have b: "tb ((<) 0) (member sample_long_lived ''has_token'') \<and>
           \<not> tb ((<) 0) (member sample_long_lived ''is_expired'') \<and>
           member sample_long_lived ''expires_in_days'' = None \<and>
           tb ((<) 0) (member sample_long_lived ''is_long_lived'')"
    by (simp add: sample_long_lived_def own_prop_def tb_def)
  from a b
    token_status_reports [of 0 "[]" 0 "(<) 0" sample_status "\<lambda>v. False" nat]
    token_status_reports [of 0 "[]" 0 "(<) 0" sample_long_lived "\<lambda>v. False" nat]
  show ?thesis by blast
qed

subsection \<open>Refreshing the token\<close>

lemma refresh_token_redirects:
  assumes "to_boolean nb m" and "tb nb (member m ''authorization_url'')"
  shows "refresh_token nb True (Some m) =
           [Confirm [Tr ''This will redirect you to Facebook to re-authorize. Continue?'' []],
            Call ''creqit.meta.FacebookLeadAds.oauth.refresh_token'',
            Navigate (member m ''authorization_url'')]"
  using assms by (simp add: refresh_token_def)

lemma refresh_token_navigate_iff:
  "Navigate u \<in> set (refresh_token nb confirmed resp) \<longleftrightarrow>
     confirmed \<and>
     (\<exists>m. resp = Some m \<and> to_boolean nb m \<and> tb nb (member m ''authorization_url'') \<and>
          u = member m ''authorization_url'')"
  by (auto simp: refresh_token_def split: option.splits)

lemma refresh_token_effects:
  "e \<in> set (refresh_token nb confirmed resp) \<Longrightarrow>
     e = Confirm [Tr ''This will redirect you to Facebook to re-authorize. Continue?'' []] \<or>
     e = Call ''creqit.meta.FacebookLeadAds.oauth.refresh_token'' \<or>
     (\<exists>u. e = Navigate u)"
  by (auto simp: refresh_token_def split: option.splits if_splits)

lemma foldl_apply_effect_id:
  assumes "\<And>e. e \<in> set es \<Longrightarrow> apply_effect env doc e = doc"
  shows "foldl (apply_effect env) doc es = doc"
  using assms by (induction es) simp_all

lemma refresh_token_doc:
  "fst (perform nb lt7 parse_date now env (Click RefreshToken) doc) = doc"
  unfolding perform_def effects_of_def fst_conv run_handler_def operation.case handler.case
  by (rule foldl_apply_effect_id) (auto dest!: refresh_token_effects)

lemma refresh_token_declined:
  "refresh_token nb False resp =
     [Confirm [Tr ''This will redirect you to Facebook to re-authorize. Continue?'' []]]"
  by (simp add: refresh_token_def)

lemma refresh_token_no_url:
  assumes "\<not> (\<exists>m. resp = Some m \<and> to_boolean nb m \<and> tb nb (member m ''authorization_url''))"
  shows "refresh_token nb True resp =
           [Confirm [Tr ''This will redirect you to Facebook to re-authorize. Continue?'' []],
            Call ''creqit.meta.FacebookLeadAds.oauth.refresh_token'']"
  using assms by (auto simp: refresh_token_def split: option.splits)

lemma refresh_token_operation:
  "snd (perform nb lt7 parse_date now env (Click RefreshToken) doc) =
     refresh_token nb (operator_confirms env) (answer env)"
  by (simp add: perform_def effects_of_def run_handler_def)

text \<open>
  C4, as the code has it. For every invocation of the refresh operation: when the
  operator declines the dialog, the dialog is all that happens, and the server is not
  called. When the operator confirms and the server's answer carries an
  \<^verbatim>\<open>authorization_url\<close>, the operation is the dialog, one call of
  \<^verbatim>\<open>oauth.refresh_token\<close> and the navigation of the browser to that URL. When the
  operator confirms and the answer carries none, it is the dialog and the call, and
  nothing more. So the operator is sent to the authorization URL in the second case and
  in no other, no effect but these three ever occurs, and the operation never obtains a
  new token silently: it leaves the form document, the access token and its expiry
  included, as it was.
\<close>

theorem refresh_token_reauthorizes:
  "refresh_token nb False resp =
     [Confirm [Tr ''This will redirect you to Facebook to re-authorize. Continue?'' []]] \<and>
   (to_boolean nb m \<and> tb nb (member m ''authorization_url'') \<longrightarrow>
      refresh_token nb True (Some m) =
        [Confirm [Tr ''This will redirect you to Facebook to re-authorize. Continue?'' []],
         Call ''creqit.meta.FacebookLeadAds.oauth.refresh_token'',
         Navigate (member m ''authorization_url'')]) \<and>
   (\<not> (\<exists>m. resp = Some m \<and> to_boolean nb m \<and> tb nb (member m ''authorization_url'')) \<longrightarrow>
      refresh_token nb True resp =
        [Confirm [Tr ''This will redirect you to Facebook to re-authorize. Continue?'' []],
         Call ''creqit.meta.FacebookLeadAds.oauth.refresh_token'']) \<and>
   (Navigate u \<in> set (refresh_token nb confirmed resp) \<longleftrightarrow>
      confirmed \<and>
      (\<exists>m. resp = Some m \<and> to_boolean nb m \<and> tb nb (member m ''authorization_url'') \<and>
           u = member m ''authorization_url'')) \<and>
   (\<forall>e \<in> set (refresh_token nb confirmed resp).
      e = Confirm [Tr ''This will redirect you to Facebook to re-authorize. Continue?'' []] \<or>
      e = Call ''creqit.meta.FacebookLeadAds.oauth.refresh_token'' \<or>
      (\<exists>u. e = Navigate u)) \<and>
   snd (perform nb lt7 parse_date now env (Click RefreshToken) doc) =
     refresh_token nb (operator_confirms env) (answer env) \<and>
   fst (perform nb lt7 parse_date now env (Click RefreshToken) doc) = doc"
  using refresh_token_declined [of nb resp] refresh_token_redirects [of nb m]
    refresh_token_no_url [of resp nb]
    refresh_token_navigate_iff [of u nb confirmed resp]
    refresh_token_effects [of _ nb confirmed resp]
    refresh_token_operation [of nb lt7 parse_date now env doc]
    refresh_token_doc [of nb lt7 parse_date now env doc]
  by blast

theorem refresh_token_reauthorizes_witness:
  "to_boolean ((<) 0) sample_redirect \<and>
   tb ((<) 0) (member sample_redirect ''authorization_url'') \<and>
   refresh_token ((<) 0) True (Some sample_redirect) =
     [Confirm [Tr ''This will redirect you to Facebook to re-authorize. Continue?'' []],
      Call ''creqit.meta.FacebookLeadAds.oauth.refresh_token'',
      Navigate (Some (JStr ''https://www.facebook.com/v24.0/dialog/oauth?client_id=1234''))] \<and>
   refresh_token ((<) 0) False (Some sample_redirect) =
     [Confirm [Tr ''This will redirect you to Facebook to re-authorize. Continue?'' []]] \<and>
   refresh_token ((<) 0) True (None :: nat json option) =
     [Confirm [Tr ''This will redirect you to Facebook to re-authorize. Continue?'' []],
      Call ''creqit.meta.FacebookLeadAds.oauth.refresh_token''] \<and>
   fst (perform ((<) 0) (\<lambda>v. False) sample_dates sample_now sample_env
          (Click RefreshToken) sample_doc) = sample_doc"
proof -
  have a: "to_boolean ((<) 0) sample_redirect"
    by (simp add: sample_redirect_def)
  have m: "member sample_redirect ''authorization_url'' =
             Some (JStr ''https://www.facebook.com/v24.0/dialog/oauth?client_id=1234'')"
    by (simp add: sample_redirect_def own_prop_def)
  have b: "tb ((<) 0) (member sample_redirect ''authorization_url'')"
    by (simp add: m tb_def)
  have n: "\<not> (\<exists>m. (None :: nat json option) = Some m \<and> to_boolean ((<) 0) m \<and>
                   tb ((<) 0) (member m ''authorization_url''))"
    by simp
  from a b m n
    refresh_token_reauthorizes [where nb = "(<) 0" and resp = "Some sample_redirect"
      and m = sample_redirect and u = None and confirmed = False and ?lt7.0 = "\<lambda>v. False"
      and parse_date = sample_dates and now = sample_now and env = sample_env
      and doc = sample_doc]
    refresh_token_reauthorizes [where nb = "(<) 0" and resp = "None :: nat json option"
      and m = sample_redirect and u = None and confirmed = False and ?lt7.0 = "\<lambda>v. False"
      and parse_date = sample_dates and now = sample_now and env = sample_env
      and doc = sample_doc]
  show ?thesis by simp
qed

text \<open>
  C4 as it is written says that every invocation of the refresh operation sends the
  operator to the authorization URL. Two invocations that do not: the operator declines
  the dialog, and the operator confirms but the answer of the server has no
  \<^verbatim>\<open>authorization_url\<close>. In both the effects end before any navigation.
\<close>

theorem refresh_token_without_redirect:
  "refresh_token ((<) (0::nat)) False (Some sample_redirect) =
     [Confirm [Tr ''This will redirect you to Facebook to re-authorize. Continue?'' []]] \<and>
   refresh_token ((<) (0::nat)) True (Some (JObj [(''error'', JStr ''not configured'')])) =
     [Confirm [Tr ''This will redirect you to Facebook to re-authorize. Continue?'' []],
      Call ''creqit.meta.FacebookLeadAds.oauth.refresh_token'']"
  by (simp add: refresh_token_def own_prop_def tb_def)

subsection \<open>The verify token\<close>

lemma apply_effect_keeps:
  "keeps_token e \<Longrightarrow> webhook_verify_token (apply_effect env d e) = webhook_verify_token d"
  by (cases e) (auto simp: keeps_token_def set_value_def)

lemma foldl_keeps:
  assumes "\<And>e. e \<in> set es \<Longrightarrow> keeps_token e"
  shows "webhook_verify_token (foldl (apply_effect env) doc es) = webhook_verify_token doc"
  using assms
proof (induction es arbitrary: doc)
  case Nil
  then show ?case by simp
next
  case (Cons e es)
  then show ?case by (simp add: apply_effect_keeps)
qed

lemma refresh_keeps: "e \<in> set (refresh parse_date now doc) \<Longrightarrow> keeps_token e"
  by (auto simp: refresh_def oauth_buttons_def webhook_buttons_def expiry_warning_def
      token_active_def keeps_token_def Let_def split: if_splits option.splits)

lemma app_id_keeps: "e \<in> set (app_id_changed doc) \<Longrightarrow> keeps_token e"
  by (auto simp: app_id_changed_def keeps_token_def split: if_splits)

lemma authorize_keeps: "e \<in> set (authorize_facebook nb resp c w h) \<Longrightarrow> keeps_token e"
  by (auto simp: authorize_facebook_def keeps_token_def split: if_splits option.splits)

lemma check_keeps: "e \<in> set (check_token_status nb lt7 resp) \<Longrightarrow> keeps_token e"
  by (auto simp: check_token_status_def keeps_token_def split: if_splits option.splits)

lemma test_keeps: "e \<in> set (test_callback_url orig w h) \<Longrightarrow> keeps_token e"
  by (auto simp: test_callback_url_def keeps_token_def)

lemma refresh_token_keeps: "e \<in> set (refresh_token nb c resp) \<Longrightarrow> keeps_token e"
  by (auto simp: refresh_token_def keeps_token_def split: if_splits option.splits)

lemma copy_keeps: "e \<in> set (copy_to_clipboard txt label ok) \<Longrightarrow> keeps_token e"
  by (auto simp: copy_to_clipboard_def keeps_token_def split: if_splits)

lemma regenerate_declined:
  "regenerate_verify_token nb False resp =
     [Confirm [Tr ''This will generate a new verify token. You will need to update it in Facebook. Continue?'' []]]"
  by (simp add: regenerate_verify_token_def)

lemma regenerate_declined_keeps:
  "e \<in> set (regenerate_verify_token nb False resp) \<Longrightarrow> keeps_token e"
  by (auto simp: regenerate_declined keeps_token_def)

lemma other_operations_keep:
  assumes "\<not> (op = Click RegenerateVerifyToken \<and> operator_confirms env)"
    and "e \<in> set (effects_of nb lt7 parse_date now env op doc)"
  shows "keeps_token e"
proof (cases op)
  case OnRefresh
  then show ?thesis using assms(2) by (auto simp: effects_of_def dest: refresh_keeps)
next
  case OnAppId
  then show ?thesis using assms(2) by (auto simp: effects_of_def dest: app_id_keeps)
next
  case (Click h)
  show ?thesis
  proof (cases h)
    case RegenerateVerifyToken
    with Click assms(1) have "\<not> operator_confirms env" by simp
    with Click RegenerateVerifyToken assms(2) show ?thesis
      by (auto simp: effects_of_def run_handler_def dest: regenerate_declined_keeps)
  qed (use Click assms(2) in \<open>auto simp: effects_of_def run_handler_def
        dest: authorize_keeps check_keeps test_keeps refresh_token_keeps copy_keeps\<close>)
qed

lemma token_changes_only_by_regenerate:
  assumes "webhook_verify_token (fst (perform nb lt7 parse_date now env op doc)) \<noteq>
           webhook_verify_token doc"
  shows "op = Click RegenerateVerifyToken \<and> operator_confirms env"
proof (rule ccontr)
  assume n: "\<not> (op = Click RegenerateVerifyToken \<and> operator_confirms env)"
  have "webhook_verify_token
          (foldl (apply_effect env) doc (effects_of nb lt7 parse_date now env op doc)) =
        webhook_verify_token doc"
    by (rule foldl_keeps) (rule other_operations_keep [OF n])
  then show False using assms by (simp add: perform_def)
qed

lemma regenerate_call_only_confirmed:
  assumes "CallDoc ''regenerate_verify_token''
             \<in> set (snd (perform nb lt7 parse_date now env op doc))"
  shows "op = Click RegenerateVerifyToken \<and> operator_confirms env"
proof (cases op)
  case OnRefresh
  then show ?thesis using assms
    by (auto simp: perform_def effects_of_def refresh_def oauth_buttons_def webhook_buttons_def
        expiry_warning_def token_active_def Let_def split: if_splits option.splits)
next
  case OnAppId
  then show ?thesis using assms
    by (auto simp: perform_def effects_of_def app_id_changed_def split: if_splits)
next
  case (Click h)
  then show ?thesis using assms
    by (cases h)
      (auto simp: perform_def effects_of_def run_handler_def authorize_facebook_def
        check_token_status_def test_callback_url_def refresh_token_def copy_to_clipboard_def
        regenerate_verify_token_def split: if_splits option.splits)
qed

lemma regenerate_button:
  "AddCustomButton label grp RegenerateVerifyToken \<in> set (refresh parse_date now doc) \<Longrightarrow>
     label = ''Regenerate Verify Token''"
  by (auto simp: refresh_def oauth_buttons_def webhook_buttons_def expiry_warning_def
      token_active_def Let_def split: if_splits option.splits)

text \<open>
  C5. Whatever operation of the settings form runs (the \<open>refresh\<close> and \<open>app_id\<close> events,
  a click on any custom button), if \<^verbatim>\<open>webhook_verify_token\<close> of the form document is
  not what it was before, the operation was the handler \<open>regenerate_verify_token\<close> and
  the operator had confirmed its dialog; the server method that makes the new token is
  called by that handler alone, and only after the confirmation; and the one button
  that runs the handler is the button \<^verbatim>\<open>Regenerate Verify Token\<close>.
\<close>

theorem verify_token_stable:
  "(webhook_verify_token (fst (perform nb lt7 parse_date now env op doc)) \<noteq>
      webhook_verify_token doc \<longrightarrow>
    op = Click RegenerateVerifyToken \<and> operator_confirms env) \<and>
   (CallDoc ''regenerate_verify_token''
      \<in> set (snd (perform nb lt7 parse_date now env op doc)) \<longrightarrow>
    op = Click RegenerateVerifyToken \<and> operator_confirms env) \<and>
   (AddCustomButton label grp RegenerateVerifyToken
      \<in> set (refresh parse_date' now' doc' :: 'n effect list) \<longrightarrow>
    label = ''Regenerate Verify Token'')"
  using token_changes_only_by_regenerate [of nb lt7 parse_date now env op doc]
    regenerate_call_only_confirmed [of nb lt7 parse_date now env op doc]
    regenerate_button [of label grp parse_date' now' doc']
  by blast

theorem verify_token_stable_witness:
  "webhook_verify_token
     (fst (perform ((<) 0) (\<lambda>v. False) sample_dates sample_now sample_env
             (Click RegenerateVerifyToken) sample_doc)) = Some ''vt2'' \<and>
   webhook_verify_token sample_doc = Some ''vt1'' \<and>
   operator_confirms sample_env \<and>
   webhook_verify_token
     (fst (perform ((<) 0) (\<lambda>v. False) sample_dates sample_now
             (sample_env\<lparr>operator_confirms := False\<rparr>)
             (Click RegenerateVerifyToken) sample_doc)) = Some ''vt1''"
proof -
  have a: "webhook_verify_token
     (fst (perform ((<) 0) (\<lambda>v. False) sample_dates sample_now sample_env
             (Click RegenerateVerifyToken) sample_doc)) = Some ''vt2''"
    by (simp add: perform_def effects_of_def run_handler_def regenerate_verify_token_def
        sample_env_def sample_doc_def)
  have b: "webhook_verify_token sample_doc = Some ''vt1''"
    by (simp add: sample_doc_def)
  have c: "\<not> operator_confirms (sample_env\<lparr>operator_confirms := False\<rparr>)"
    by simp
  from a b c
    verify_token_stable [of "(<) 0" "\<lambda>v. False" sample_dates sample_now sample_env
      "Click RegenerateVerifyToken" sample_doc "[]" "[]" sample_dates sample_now sample_doc]
    verify_token_stable [of "(<) 0" "\<lambda>v. False" sample_dates sample_now
      "sample_env\<lparr>operator_confirms := False\<rparr>"
      "Click RegenerateVerifyToken" sample_doc "[]" "[]" sample_dates sample_now sample_doc]
  show ?thesis by auto
qed

section \<open>Properties of the webhook receiver of the specification\<close>

text \<open>
  C6. In the verification handshake (modelled from the specification), the answer is
  the challenge, unmodified, exactly when the supplied verify_token is the stored one,
  and it is the 403 rejection exactly when the two differ. With the stored token and the
  challenge \<^verbatim>\<open>abc123\<close> the answer is \<^verbatim>\<open>abc123\<close>.
\<close>

theorem handshake_returns_challenge_iff_token_matches:
  "(verify_handshake sub supplied challenge = Ok challenge \<longleftrightarrow>
      supplied = verify_token sub) \<and>
   (verify_handshake sub supplied challenge = Forbidden \<longleftrightarrow>
      supplied \<noteq> verify_token sub) \<and>
   verify_handshake sub (verify_token sub) ''abc123'' = Ok ''abc123''"
  by (simp add: verify_handshake_def)

lemma process_entries_failures:
  "snd (process_entries decode es) = length (filter (\<lambda>e. isl (parse_entry decode e)) es)"
  by (induction es) (auto split: sum.splits)

lemma process_entries_events:
  "fst (process_entries decode es) =
     concat (map (\<lambda>e. case parse_entry decode e of Inl err \<Rightarrow> [] | Inr ls \<Rightarrow> ls) es)"
  by (induction es) (auto split: sum.splits)

lemma process_three_entries:
  assumes "parse_entry decode e1 = Inr [a]" and "parse_entry decode e2 = Inl MalformedPayload"
    and "parse_entry decode e3 = Inr [c]"
  shows "process_entries decode [e1, e2, e3] = ([a, c], 1)"
  using assms by simp

text \<open>
  C8. Processing of a delivery (modelled from the specification) is best-effort: the
  events dispatched are those of the entries that parse, in order, and the failures
  counted are the entries that do not, so a malformed entry takes nothing from its
  siblings. For three entries of one event each whose second is malformed, exactly two
  events are dispatched and one failure is counted.
\<close>

theorem batch_entries_isolated:
  "(parse_entry decode e1 = Inr [a] \<and> parse_entry decode e2 = Inl MalformedPayload \<and>
    parse_entry decode e3 = Inr [c] \<longrightarrow>
      process_entries decode [e1, e2, e3] = ([a, c], 1)) \<and>
   fst (process_entries decode es) =
     concat (map (\<lambda>e. case parse_entry decode e of Inl err \<Rightarrow> [] | Inr ls \<Rightarrow> ls) es) \<and>
   snd (process_entries decode es) = length (filter (\<lambda>e. isl (parse_entry decode e)) es)"
  using process_three_entries [of decode e1 a e2 e3 c]
    process_entries_events [of decode es] process_entries_failures [of decode es]
  by blast

theorem batch_entries_isolated_witness:
  "parse_entry sample_decode (sample_entry ''lead-1'') = Inr [''lead-1''] \<and>
   parse_entry sample_decode sample_bad_entry = Inl MalformedPayload \<and>
   parse_entry sample_decode (sample_entry ''lead-3'') = Inr [''lead-3''] \<and>
   process_entries sample_decode
     [sample_entry ''lead-1'', sample_bad_entry, sample_entry ''lead-3''] =
     ([''lead-1'', ''lead-3''], 1)"
proof -
  have p: "\<And>l. parse_entry sample_decode (sample_entry l) = Inr [l]"
    by (simp add: parse_entry_def sample_entry_def sample_decode_def own_prop_def)
  have q: "parse_entry sample_decode sample_bad_entry = Inl MalformedPayload"
    by (simp add: parse_entry_def sample_bad_entry_def own_prop_def)
  from p [of "''lead-1''"] q p [of "''lead-3''"]
    batch_entries_isolated [of sample_decode "sample_entry ''lead-1''" "''lead-1''"
      sample_bad_entry "sample_entry ''lead-3''" "''lead-3''" "[]"]
  show ?thesis by blast
qed

end
